theory Spec2Isabelle
  imports Complex_Main "HOL-Library.Sublist"
begin

section \<open>Errors\<close>

text \<open>
  The Python exceptions the modelled code can raise. The specification's taxonomy names
  them by role: its \<open>ConfigurationError\<close> and \<open>ValidationError\<close> are the
  \<open>ValueError\<close> raised by \<open>FAISSIndexBuilder.__init__\<close> and
  \<open>cosine_to_l2_threshold\<close>, its \<open>StateError\<close> is the \<open>RuntimeError\<close>
  raised by \<open>FAISSIndexBuilder.add\<close>.
\<close>

datatype error = ValueError | RuntimeError | ZeroDivisionError | IndexError | AssertionError

section \<open>Metric conversion (indexing/faiss_index.py)\<close>

text \<open>
  Python floats are modelled as real numbers. \<open>cosine_to_l2_threshold\<close> checks
  \<open>not 0 <= cosine_similarity <= 1\<close> and then takes \<open>np.sqrt(2 - 2 * cosine_similarity)\<close>;
  the source has no clamp of the radicand.
\<close>

definition cosine_to_l2_threshold :: "real \<Rightarrow> error + real" where
  "cosine_to_l2_threshold cosine_similarity =
     (if \<not> (0 \<le> cosine_similarity \<and> cosine_similarity \<le> 1) then Inl ValueError
      else Inr (sqrt (2 - 2 * cosine_similarity)))"

definition l2_to_cosine_similarity :: "real \<Rightarrow> real" where
  "l2_to_cosine_similarity l2_distance = 1 - (l2_distance ^ 2) / 2"

text \<open>
  The specification's wording of the first conversion (section 4.2): domain check to
  \<open>[0,1]\<close>, then \<open>sqrt(max(0, 2 - 2 cos_sim))\<close>.
\<close>

definition similarity_to_distance_spec :: "real \<Rightarrow> error + real" where
  "similarity_to_distance_spec cos_sim =
     (if cos_sim < 0 \<or> 1 < cos_sim then Inl ValueError
      else Inr (sqrt (max 0 (2 - 2 * cos_sim))))"

text \<open>
  The same two functions with the rounding of floating-point arithmetic made explicit:
  every operation of the source is followed by a rounding \<open>rnd\<close>. A rounding is
  characterised as in the standard model of floating-point arithmetic, by a relative
  error bound \<open>u\<close> (the unit roundoff: \<open>2^-53\<close> for Python floats, \<open>2^-24\<close> for
  the 32-bit floats of the index), by monotonicity and by being exact on 2. With the
  identity as rounding these are the functions above.
\<close>

definition rounds_within :: "real \<Rightarrow> (real \<Rightarrow> real) \<Rightarrow> bool" where
  "rounds_within u rnd \<longleftrightarrow>
     (\<forall>y. \<bar>rnd y - y\<bar> \<le> u * \<bar>y\<bar>) \<and> (\<forall>y z. y \<le> z \<longrightarrow> rnd y \<le> rnd z) \<and> rnd 2 = 2"

definition cosine_to_l2_threshold_fl :: "(real \<Rightarrow> real) \<Rightarrow> real \<Rightarrow> error + real" where
  "cosine_to_l2_threshold_fl rnd cos_sim =
     (if \<not> (0 \<le> cos_sim \<and> cos_sim \<le> 1) then Inl ValueError
      else Inr (rnd (sqrt (rnd (2 - rnd (2 * cos_sim))))))"

definition l2_to_cosine_similarity_fl :: "(real \<Rightarrow> real) \<Rightarrow> real \<Rightarrow> real" where
  "l2_to_cosine_similarity_fl rnd l2_dist = rnd (1 - rnd (rnd (l2_dist ^ 2) / 2))"

section \<open>Vectors and the vector-search backend\<close>

text \<open>
  An embedding is a list of reals, a batch a list of embeddings (a two-dimensional
  array, one row per vector). The FAISS library itself is not part of the repository;
  the operations the repository calls on it are modelled from the specification.
\<close>

type_synonym vector = "real list"

definition dot :: "vector \<Rightarrow> vector \<Rightarrow> real" where
  "dot u v = (\<Sum>(a, b)\<leftarrow>zip u v. a * b)"

definition l2_norm :: "vector \<Rightarrow> real" where
  "l2_norm v = sqrt (\<Sum>a\<leftarrow>v. a ^ 2)"

definition l2_distance :: "vector \<Rightarrow> vector \<Rightarrow> real" where
  "l2_distance u v = sqrt (\<Sum>(a, b)\<leftarrow>zip u v. (a - b) ^ 2)"

text \<open>
  Modelled from the spec: \<open>faiss.normalize_L2\<close> (section 4.3, Normalizer): each vector
  is rescaled to unit Euclidean length; a zero vector is left as zero.
\<close>

definition normalize_L2 :: "vector \<Rightarrow> vector" where
  "normalize_L2 v = (if l2_norm v = 0 then v else map (\<lambda>a. a / l2_norm v) v)"

text \<open>
  The ground truth of the specification's testable properties: the cosine similarity of
  two vectors, which section 4.3 defines as 0 against a zero vector.
\<close>

definition cosine_similarity :: "vector \<Rightarrow> vector \<Rightarrow> real" where
  "cosine_similarity u v =
     (if l2_norm u = 0 \<or> l2_norm v = 0 then 0 else dot u v / (l2_norm u * l2_norm v))"

datatype IndexType = FLAT | IVF_FLAT | IVF_PQ

text \<open>
  Modelled from the spec: the state of a \<open>faiss.Index\<close> (section 3, VectorIndex state;
  section 4.1). \<open>ix_kind\<close> is the allocated backend, \<open>ix_d\<close> its dimension,
  \<open>ix_params\<close> the trained parameters (represented by the normalised sample that
  training fixed them from, \<open>None\<close> before training), \<open>ix_rows\<close> the stored
  vectors tagged with their 64-bit IDs (modelled as unbounded integers), in insertion
  order.
\<close>

record faiss_index =
  ix_kind :: IndexType
  ix_d :: int
  ix_params :: "vector list option"
  ix_rows :: "(int \<times> vector) list"

definition ntotal :: "faiss_index \<Rightarrow> nat" where
  "ntotal ix = length (ix_rows ix)"

text \<open>
  Modelled from the spec: \<open>index.train\<close> fixes the trained parameters from the sample
  (section 4.1, \<open>train\<close>), and \<open>index.add_with_ids\<close> appends the vectors tagged with
  their IDs (section 4.1, \<open>add\<close>). The library binding asserts that every vector has the
  dimension of the index and that there are as many IDs as vectors.
\<close>

definition faiss_train :: "faiss_index \<Rightarrow> vector list \<Rightarrow> faiss_index" where
  "faiss_train ix sample = ix\<lparr>ix_params := Some sample\<rparr>"

definition add_with_ids :: "faiss_index \<Rightarrow> vector list \<Rightarrow> int list \<Rightarrow> error + faiss_index" where
  "add_with_ids ix vectors ids =
     (if (\<exists>v \<in> set vectors. int (length v) \<noteq> ix_d ix) \<or> length ids \<noteq> length vectors
      then Inl AssertionError
      else Inr (ix\<lparr>ix_rows := ix_rows ix @ zip ids vectors\<rparr>))"

text \<open>
  Modelled from the spec: \<open>index.range_search\<close> of the exact backend (section 4.1,
  \<open>range_search\<close>): for each query, all stored IDs whose distance to the query is at
  most the threshold, each paired with its exact distance. The result has the library's
  layout: \<open>lims\<close> holds the offsets that delimit each query's hits in the flat arrays of
  distances and IDs.
\<close>

definition flat_hits :: "(int \<times> vector) list \<Rightarrow> vector \<Rightarrow> real \<Rightarrow> (int \<times> real) list" where
  "flat_hits rows q radius =
     map (\<lambda>(i, v). (i, l2_distance q v)) (filter (\<lambda>(i, v). l2_distance q v \<le> radius) rows)"

fun offsets :: "nat \<Rightarrow> 'a list list \<Rightarrow> nat list" where
  "offsets n [] = [n]"
| "offsets n (h # hs) = n # offsets (n + length h) hs"

type_synonym range_result = "nat list \<times> real list \<times> int list"

definition flat_range_search :: "faiss_index \<Rightarrow> vector list \<Rightarrow> real \<Rightarrow> error + range_result" where
  "flat_range_search ix queries radius =
     (if \<exists>q \<in> set queries. int (length q) \<noteq> ix_d ix then Inl AssertionError
      else let hits = map (\<lambda>q. flat_hits (ix_rows ix) q radius) queries
           in Inr (offsets 0 hits, map snd (concat hits), map fst (concat hits)))"

section \<open>FAISSIndexBuilder (indexing/faiss_index.py)\<close>

record FAISSIndexBuilder =
  dimension :: int
  index_type :: IndexType
  nlist :: int
  m :: int
  nbits :: int
  nprobe :: int
  use_gpu :: bool
  index :: "faiss_index option"
  is_trained :: bool

text \<open>
  \<open>__init__\<close> stores its arguments, sets
  \<open>index = None\<close> and \<open>is_trained = False\<close>, and then validates
  \<open>dimension % m != 0\<close>, whatever the index type. Python's \<open>%\<close> on integers
  raises \<open>ZeroDivisionError\<close> for a zero divisor and otherwise is the floored remainder,
  as \<open>mod\<close> on \<open>int\<close>.
\<close>

definition init :: "int \<Rightarrow> IndexType \<Rightarrow> int \<Rightarrow> int \<Rightarrow> int \<Rightarrow> int \<Rightarrow> bool \<Rightarrow> error + FAISSIndexBuilder" where
  "init dimension' index_type' nlist' m' nbits' nprobe' use_gpu' =
     (if m' = 0 then Inl ZeroDivisionError
      else if dimension' mod m' \<noteq> 0 then Inl ValueError
      else Inr \<lparr>dimension = dimension', index_type = index_type', nlist = nlist', m = m',
                nbits = nbits', nprobe = nprobe', use_gpu = use_gpu', index = None,
                is_trained = False\<rparr>)"

text \<open>
  \<open>_create_index\<close> allocates the backend for the index type; the flat backend needs no
  training, so \<open>is_trained\<close> is set for it. The wrapper for custom IDs and the move to
  an accelerator do not change what the index stores or returns.
\<close>

definition create_index :: "FAISSIndexBuilder \<Rightarrow> FAISSIndexBuilder" where
  "create_index b =
     (let ix = \<lparr>ix_kind = index_type b, ix_d = dimension b, ix_params = None, ix_rows = []\<rparr>
      in case index_type b of
           FLAT \<Rightarrow> b\<lparr>index := Some ix, is_trained := True\<rparr>
         | IVF_FLAT \<Rightarrow> b\<lparr>index := Some ix\<rparr>
         | IVF_PQ \<Rightarrow> b\<lparr>index := Some ix\<rparr>)"

datatype log_record = Warning string | Info string

text \<open>
  \<open>train\<close> returns at once, with a warning, when the builder is already trained;
  otherwise it creates the index if there is none, normalises the sample, trains the
  backend and sets \<open>is_trained\<close>. The result carries the warnings logged.
\<close>

definition train :: "FAISSIndexBuilder \<Rightarrow> vector list \<Rightarrow> log_record list \<times> FAISSIndexBuilder" where
  "train b train_vectors =
     (if is_trained b then ([Warning ''Index is already trained, skipping''], b)
      else let b1 = (if index b = None then create_index b else b);
               sample = map normalize_L2 train_vectors
           in ([], b1\<lparr>index := map_option (\<lambda>ix. faiss_train ix sample) (index b1),
                       is_trained := True\<rparr>))"

text \<open>
  \<open>add\<close> raises \<open>RuntimeError\<close> before touching the index when the builder is not
  trained or has no index. Otherwise it takes the given IDs, or the sequential IDs that
  continue from the current count, normalises a copy of the vectors and adds them.
\<close>

definition add :: "FAISSIndexBuilder \<Rightarrow> vector list \<Rightarrow> int list option \<Rightarrow> error + FAISSIndexBuilder" where
  "add b vectors ids =
     (if \<not> is_trained b then Inl RuntimeError
      else case index b of
             None \<Rightarrow> Inl RuntimeError
           | Some ix \<Rightarrow>
               (let ids' = (case ids of
                              None \<Rightarrow> map int [ntotal ix ..< ntotal ix + length vectors]
                            | Some given \<Rightarrow> given);
                    vectors' = map normalize_L2 vectors
                in case add_with_ids ix vectors' ids' of
                     Inl e \<Rightarrow> Inl e
                   | Inr ix' \<Rightarrow> Inr (b\<lparr>index := Some ix'\<rparr>)))"

definition num_vectors :: "FAISSIndexBuilder \<Rightarrow> nat" where
  "num_vectors b = (case index b of None \<Rightarrow> 0 | Some ix \<Rightarrow> ntotal ix)"

section \<open>MetadataStore (query/metadata.py)\<close>

text \<open>
  \<open>CodeSnippet\<close> is the parser's dataclass; \<open>snippet_row\<close> is a row of the table
  \<open>snippets\<close>, whose column \<open>id\<close> is the primary key. The store is the list of the
  table's rows.
\<close>

record CodeSnippet =
  code :: string
  file_path :: string
  start_line :: int
  end_line :: int
  language :: string
  function_name :: "string option"

record snippet_row =
  row_id :: int
  row_code :: string
  row_file_path :: string
  row_start_line :: int
  row_end_line :: int
  row_language :: string
  row_function_name :: "string option"

type_synonym MetadataStore = "snippet_row list"

definition mk_row :: "int \<Rightarrow> CodeSnippet \<Rightarrow> snippet_row" where
  "mk_row snippet_id snippet =
     \<lparr>row_id = snippet_id, row_code = code snippet, row_file_path = file_path snippet,
      row_start_line = start_line snippet, row_end_line = end_line snippet,
      row_language = language snippet, row_function_name = function_name snippet\<rparr>"

text \<open>
  \<open>INSERT OR REPLACE\<close>: a row that holds the new row's primary key is deleted before
  the new row is inserted.
\<close>

definition insert_or_replace :: "snippet_row \<Rightarrow> MetadataStore \<Rightarrow> MetadataStore" where
  "insert_or_replace r store = filter (\<lambda>r'. row_id r' \<noteq> row_id r) store @ [r]"

definition add_snippet :: "MetadataStore \<Rightarrow> int \<Rightarrow> CodeSnippet \<Rightarrow> MetadataStore" where
  "add_snippet store snippet_id snippet = insert_or_replace (mk_row snippet_id snippet) store"

text \<open>\<open>executemany\<close> runs the statement once for each tuple, in the order of the list.\<close>

definition add_snippets_batch :: "MetadataStore \<Rightarrow> (int \<times> CodeSnippet) list \<Rightarrow> MetadataStore" where
  "add_snippets_batch store snippets =
     fold (\<lambda>(snippet_id, snippet) st. insert_or_replace (mk_row snippet_id snippet) st) snippets store"

definition get_snippet :: "MetadataStore \<Rightarrow> int \<Rightarrow> snippet_row option" where
  "get_snippet store snippet_id = find (\<lambda>r. row_id r = snippet_id) store"

definition get_snippets :: "MetadataStore \<Rightarrow> int list \<Rightarrow> snippet_row list" where
  "get_snippets store snippet_ids =
     (if snippet_ids = [] then [] else filter (\<lambda>r. row_id r \<in> set snippet_ids) store)"

definition count :: "MetadataStore \<Rightarrow> nat" where
  "count store = length store"

section \<open>CloneSearcher (query/search.py)\<close>

record CloneMatch =
  snippet_id :: int
  cm_file_path :: string
  cm_start_line :: int
  cm_end_line :: int
  cm_language :: string
  cm_function_name :: "string option"
  similarity :: real
  cm_code :: string

text \<open>
  The searcher holds the index, the embedder and the metadata store. The index is used
  through \<open>range_search\<close> only and the embedder through \<open>embed_single\<close> and
  \<open>embed_batch\<close>, so they are fields holding these functions.
\<close>

record CloneSearcher =
  range_search :: "vector list \<Rightarrow> real \<Rightarrow> error + range_result"
  embed_single :: "string \<Rightarrow> vector"
  embed_batch :: "string list \<Rightarrow> vector list"
  metadata_store :: MetadataStore

text \<open>
  \<open>_hydrate_results\<close>: the dictionary \<open>metadata_map\<close> is built from the rows the
  store returns, a later row replacing an earlier one with the same key; the loop over
  \<open>zip(snippet_ids, similarities)\<close> skips an ID without metadata, then skips a
  similarity \<open>>= 0.9999\<close> when \<open>exclude_self\<close> is set.
\<close>

definition metadata_map :: "snippet_row list \<Rightarrow> int \<Rightarrow> snippet_row option" where
  "metadata_map metadata_list = map_of (rev (map (\<lambda>r. (row_id r, r)) metadata_list))"

definition mk_clone :: "int \<Rightarrow> snippet_row \<Rightarrow> real \<Rightarrow> CloneMatch" where
  "mk_clone sid metadata sim =
     \<lparr>snippet_id = sid, cm_file_path = row_file_path metadata,
      cm_start_line = row_start_line metadata, cm_end_line = row_end_line metadata,
      cm_language = row_language metadata, cm_function_name = row_function_name metadata,
      similarity = sim, cm_code = row_code metadata\<rparr>"

fun hydrate_loop :: "(int \<Rightarrow> snippet_row option) \<Rightarrow> bool \<Rightarrow> (int \<times> real) list \<Rightarrow> CloneMatch list" where
  "hydrate_loop mm exclude_self [] = []"
| "hydrate_loop mm exclude_self ((sid, sim) # rest) =
     (case mm sid of
        None \<Rightarrow> hydrate_loop mm exclude_self rest
      | Some metadata \<Rightarrow>
          if exclude_self \<and> sim \<ge> 0.9999 then hydrate_loop mm exclude_self rest
          else mk_clone sid metadata sim # hydrate_loop mm exclude_self rest)"

definition hydrate_results :: "CloneSearcher \<Rightarrow> int list \<Rightarrow> real list \<Rightarrow> bool \<Rightarrow> CloneMatch list" where
  "hydrate_results s snippet_ids similarities exclude_self =
     (if length snippet_ids = 0 then []
      else hydrate_loop (metadata_map (get_snippets (metadata_store s) snippet_ids)) exclude_self
             (zip snippet_ids similarities))"

text \<open>
  \<open>clones.sort(key=lambda x: x.similarity, reverse=True)\<close>: Python's sort is stable, and
  stays so with \<open>reverse=True\<close> (elements with equal keys keep their order), which is
  the stable insertion sort on the negated key.
\<close>

definition sort_clones :: "CloneMatch list \<Rightarrow> CloneMatch list" where
  "sort_clones clones = sort_key (\<lambda>x. - similarity x) clones"

text \<open>
  Python's \<open>xs[a:b]\<close> and \<open>xs[:n]\<close> for a list; a negative bound of \<open>xs[:n]\<close>
  counts from the end. \<open>lims[i]\<close> raises \<open>IndexError\<close> out of range.
\<close>

definition slice :: "'a list \<Rightarrow> nat \<Rightarrow> nat \<Rightarrow> 'a list" where
  "slice xs a b = drop a (take b xs)"

definition prefix_upto :: "'a list \<Rightarrow> int \<Rightarrow> 'a list" where
  "prefix_upto xs n = (if 0 \<le> n then take (nat n) xs else take (nat (int (length xs) + n)) xs)"

definition item :: "'a list \<Rightarrow> nat \<Rightarrow> error + 'a" where
  "item xs i = (if i < length xs then Inr (xs ! i) else Inl IndexError)"

text \<open>
  The part of a query that follows \<open>range_search\<close>, for the query at position \<open>i\<close> of
  the batch: the slices of distances and IDs between \<open>lims[i]\<close> and \<open>lims[i + 1]\<close>,
  the conversion of distances to similarities, hydration and the sort.
\<close>

fun query_results :: "CloneSearcher \<Rightarrow> range_result \<Rightarrow> nat \<Rightarrow> bool \<Rightarrow> error + CloneMatch list" where
  "query_results s (lims, distances, ids) i exclude_self =
       (case item lims i of
          Inl e \<Rightarrow> Inl e
        | Inr start_idx \<Rightarrow>
            (case item lims (i + 1) of
               Inl e \<Rightarrow> Inl e
             | Inr end_idx \<Rightarrow>
                 (let result_distances = slice distances start_idx end_idx;
                      result_ids = slice ids start_idx end_idx;
                      similarities = map l2_to_cosine_similarity result_distances;
                      clones = hydrate_results s result_ids similarities exclude_self
                  in Inr (sort_clones clones))))"

text \<open>
  \<open>find_clones\<close>: embed, normalise, convert the threshold (which may raise), search,
  hydrate and sort the hits of the single query, and cut to \<open>max_results\<close> when it is
  given and not zero (\<open>if max_results:\<close>).
\<close>

definition find_clones :: "CloneSearcher \<Rightarrow> string \<Rightarrow> real \<Rightarrow> int option \<Rightarrow> bool \<Rightarrow> error + CloneMatch list" where
  "find_clones s query_code similarity_threshold max_results exclude_self =
     (let query_embedding = [normalize_L2 (embed_single s query_code)]
      in case cosine_to_l2_threshold similarity_threshold of
           Inl e \<Rightarrow> Inl e
         | Inr l2_threshold \<Rightarrow>
             (case range_search s query_embedding l2_threshold of
                Inl e \<Rightarrow> Inl e
              | Inr res \<Rightarrow>
                  (case query_results s res 0 exclude_self of
                     Inl e \<Rightarrow> Inl e
                   | Inr clones \<Rightarrow>
                       (case max_results of
                          None \<Rightarrow> Inr clones
                        | Some n \<Rightarrow> if n \<noteq> 0 then Inr (prefix_upto clones n) else Inr clones))))"

text \<open>
  \<open>find_clones_batch\<close>: nothing for an empty list of queries; otherwise one search for
  all queries and, for each query in order, hydration with the default
  \<open>exclude_self\<close> and the sort. The loop stops at the first error.
\<close>

fun batch_loop :: "CloneSearcher \<Rightarrow> range_result \<Rightarrow> nat list \<Rightarrow> error + CloneMatch list list" where
  "batch_loop s res [] = Inr []"
| "batch_loop s res (i # rest) =
     (case query_results s res i True of
        Inl e \<Rightarrow> Inl e
      | Inr clones \<Rightarrow>
          (case batch_loop s res rest of
             Inl e \<Rightarrow> Inl e
           | Inr all_results \<Rightarrow> Inr (clones # all_results)))"

definition find_clones_batch :: "CloneSearcher \<Rightarrow> string list \<Rightarrow> real \<Rightarrow> error + CloneMatch list list" where
  "find_clones_batch s query_codes similarity_threshold =
     (if query_codes = [] then Inr []
      else let query_embeddings = map normalize_L2 (embed_batch s query_codes)
           in case cosine_to_l2_threshold similarity_threshold of
                Inl e \<Rightarrow> Inl e
              | Inr l2_threshold \<Rightarrow>
                  (case range_search s query_embeddings l2_threshold of
                     Inl e \<Rightarrow> Inl e
                   | Inr res \<Rightarrow> batch_loop s res [0 ..< length query_codes]))"

text \<open>A searcher whose index is an exact-backend index and whose batch embedder embeds each text.\<close>

definition flat_searcher :: "faiss_index \<Rightarrow> (string \<Rightarrow> vector) \<Rightarrow> MetadataStore \<Rightarrow> CloneSearcher" where
  "flat_searcher ix embedder store =
     \<lparr>range_search = flat_range_search ix, embed_single = embedder,
      embed_batch = map embedder, metadata_store = store\<rparr>"

section \<open>Input shapes and example data\<close>

text \<open>
  The shape a call of \<open>add\<close> must have for the backend to accept it: every vector has
  the dimension of the index, and the IDs, when given, are as many as the vectors.
\<close>

definition well_shaped :: "int \<Rightarrow> vector list \<Rightarrow> int list option \<Rightarrow> bool" where
  "well_shaped d vs ids \<longleftrightarrow>
     (\<forall>v \<in> set vs. int (length v) = d) \<and>
     (case ids of None \<Rightarrow> True | Some given \<Rightarrow> length given = length vs)"

text \<open>A two-dimensional clustered builder as \<open>__init__\<close> leaves it, and the same once trained.\<close>

definition fresh_ivf :: FAISSIndexBuilder where
  "fresh_ivf = \<lparr>dimension = 2, index_type = IVF_FLAT, nlist = 1, m = 1, nbits = 8, nprobe = 1,
                 use_gpu = False, index = None, is_trained = False\<rparr>"

definition trained_ivf :: FAISSIndexBuilder where
  "trained_ivf = snd (train fresh_ivf [[3, 4]])"

text \<open>Two snippets and two batches that write ID 2 twice.\<close>

definition snippet_f :: CodeSnippet where
  "snippet_f = \<lparr>code = ''def f(): pass'', file_path = ''a.py'', start_line = 1, end_line = 1,
                 language = ''python'', function_name = Some ''f''\<rparr>"

definition snippet_g :: CodeSnippet where
  "snippet_g = \<lparr>code = ''def g(): pass'', file_path = ''b.py'', start_line = 4, end_line = 5,
                 language = ''python'', function_name = None\<rparr>"

definition first_batch :: "(int \<times> CodeSnippet) list" where
  "first_batch = [(1, snippet_f), (2, snippet_f)]"

definition second_batch :: "(int \<times> CodeSnippet) list" where
  "second_batch = [(2, snippet_g), (3, snippet_f)]"

text \<open>The hits that the loop of \<open>_hydrate_results\<close> keeps.\<close>

definition keeps :: "(int \<Rightarrow> snippet_row option) \<Rightarrow> bool \<Rightarrow> int \<times> real \<Rightarrow> bool" where
  "keeps mm ex h \<longleftrightarrow> mm (fst h) \<noteq> None \<and> \<not> (ex \<and> snd h \<ge> 0.9999)"

text \<open>
  An exact-backend index that holds the same unit vector under IDs 7 and 3 (two copies
  of one function) and another unit vector under ID 5, in this insertion order; a store
  with a row for each ID; a searcher over them whose embedder maps every query to the
  vector of ID 5.
\<close>

definition twin_index :: faiss_index where
  "twin_index = \<lparr>ix_kind = FLAT, ix_d = 2, ix_params = None,
                  ix_rows = [(7, [3 / 5, 4 / 5]), (3, [3 / 5, 4 / 5]), (5, [1, 0])]\<rparr>"

definition twin_store :: MetadataStore where
  "twin_store = [mk_row 7 snippet_f, mk_row 3 snippet_g, mk_row 5 snippet_f]"

definition twin_searcher :: CloneSearcher where
  "twin_searcher = flat_searcher twin_index (\<lambda>query_code. [1, 0]) twin_store"


definition unit_rows :: "faiss_index \<Rightarrow> bool" where
  "unit_rows ix \<longleftrightarrow> (\<forall>(i, v) \<in> set (ix_rows ix). l2_norm v = 1 \<and> int (length v) = ix_d ix)"




section \<open>Properties of the metric conversion\<close>

lemma sqrt_tenth: "\<bar>sqrt (1 / 10) - 316 / 1000\<bar> < 5 / 10000"
proof -
  have lower: "3158 / 10000 < sqrt (1 / 10)"
    by (rule real_less_rsqrt) (simp add: power2_eq_square)
  have upper: "sqrt (1 / 10) < 3165 / 10000"
    by (rule real_less_lsqrt) (simp_all add: power2_eq_square)
  show ?thesis using lower upper by linarith
qed

lemma sqrt_fifth: "\<bar>sqrt (1 / 5) - 447 / 1000\<bar> < 5 / 10000"
proof -
  have lower: "4468 / 10000 < sqrt (1 / 5)"
    by (rule real_less_rsqrt) (simp add: power2_eq_square)
  have upper: "sqrt (1 / 5) < 4474 / 10000"
    by (rule real_less_lsqrt) (simp_all add: power2_eq_square)
  show ?thesis using lower upper by linarith
qed

text \<open>
  Claim C3. \<open>cosine_to_l2_threshold\<close> raises \<open>ValueError\<close> (the specification's
  \<open>ValidationError\<close>) exactly when its argument is outside \<open>[0,1]\<close> and returns a
  value exactly when it is inside; it agrees everywhere with the specification's
  \<open>sqrt(max(0, 2 - 2 cos_sim))\<close>, the clamp never being active on \<open>[0,1]\<close>; at 0.95
  and 0.90 the value is 0.316 and 0.447 to three decimals.
\<close>

theorem cosine_to_l2_threshold_domain_and_value:
  "(cosine_to_l2_threshold c = Inl ValueError \<longleftrightarrow> c < 0 \<or> 1 < c)
   \<and> ((\<exists>d. cosine_to_l2_threshold c = Inr d) \<longleftrightarrow> 0 \<le> c \<and> c \<le> 1)
   \<and> cosine_to_l2_threshold c = similarity_to_distance_spec c
   \<and> (\<exists>d. cosine_to_l2_threshold (95 / 100) = Inr d \<and> \<bar>d - 316 / 1000\<bar> < 5 / 10000)
   \<and> (\<exists>d. cosine_to_l2_threshold (90 / 100) = Inr d \<and> \<bar>d - 447 / 1000\<bar> < 5 / 10000)"
proof -
  have at95: "cosine_to_l2_threshold (95 / 100) = Inr (sqrt (1 / 10))"
    by (simp add: cosine_to_l2_threshold_def)
  have at90: "cosine_to_l2_threshold (90 / 100) = Inr (sqrt (1 / 5))"
    by (simp add: cosine_to_l2_threshold_def)
  have refines: "cosine_to_l2_threshold c = similarity_to_distance_spec c"
    by (simp add: cosine_to_l2_threshold_def similarity_to_distance_spec_def max_def not_le)
  have raises: "cosine_to_l2_threshold c = Inl ValueError \<longleftrightarrow> c < 0 \<or> 1 < c"
    by (auto simp add: cosine_to_l2_threshold_def)
  have returns: "(\<exists>d. cosine_to_l2_threshold c = Inr d) \<longleftrightarrow> 0 \<le> c \<and> c \<le> 1"
    by (auto simp add: cosine_to_l2_threshold_def)
  show ?thesis using at95 at90 refines raises returns sqrt_tenth sqrt_fifth by simp
qed

theorem cosine_to_l2_threshold_domain_and_value_witness:
  "cosine_to_l2_threshold (1 / 2) = Inr 1
   \<and> similarity_to_distance_spec (1 / 2) = Inr 1
   \<and> cosine_to_l2_threshold (3 / 2) = Inl ValueError
   \<and> cosine_to_l2_threshold (- 1 / 10) = Inl ValueError"
  using cosine_to_l2_threshold_domain_and_value [of "1 / 2"]
    cosine_to_l2_threshold_domain_and_value [of "3 / 2"]
    cosine_to_l2_threshold_domain_and_value [of "- 1 / 10"]
  by (simp add: cosine_to_l2_threshold_def)

lemma rnd_zero: "rounds_within u rnd \<Longrightarrow> rnd 0 = 0"
  unfolding rounds_within_def by (metis abs_le_zero_iff abs_zero diff_zero mult_zero_right)

lemma rnd_err: "rounds_within u rnd \<Longrightarrow> \<bar>rnd y - y\<bar> \<le> u * \<bar>y\<bar>"
  unfolding rounds_within_def by blast

lemma rnd_mono: "rounds_within u rnd \<Longrightarrow> y \<le> z \<Longrightarrow> rnd y \<le> rnd z"
  unfolding rounds_within_def by blast

lemma rnd_two: "rounds_within u rnd \<Longrightarrow> rnd 2 = 2"
  unfolding rounds_within_def by blast

lemma rnd_err_bound:
  assumes "rounds_within u rnd" "0 \<le> u" "\<bar>y\<bar> \<le> K"
  shows "\<bar>rnd y - y\<bar> \<le> u * K"
proof -
  have "u * \<bar>y\<bar> \<le> u * K" using assms(2,3) by (rule mult_left_mono[rotated])
  then show ?thesis using rnd_err[OF assms(1), of y] by linarith
qed

lemma radicand_fl:
  assumes r: "rounds_within u rnd" and u: "0 \<le> u" and c: "0 \<le> c" "c \<le> 1"
  shows "0 \<le> rnd (2 - rnd (2 * c))" "rnd (2 - rnd (2 * c)) \<le> 2"
    "\<bar>rnd (2 - rnd (2 * c)) - (2 - 2 * c)\<bar> \<le> 4 * u"
proof -
  let ?A = "rnd (2 * c)"
  have A0: "0 \<le> ?A" using rnd_mono[OF r, of 0 "2 * c"] rnd_zero[OF r] c by simp
  have A2: "?A \<le> 2" using rnd_mono[OF r, of "2 * c" 2] rnd_two[OF r] c by simp
  have Ae: "\<bar>?A - 2 * c\<bar> \<le> u * 2" using rnd_err_bound[OF r u, of "2 * c" 2] c by simp
  let ?T = "2 - ?A"
  have T: "0 \<le> ?T" "?T \<le> 2" using A0 A2 by simp_all
  show B0: "0 \<le> rnd ?T" using rnd_mono[OF r, of 0 ?T] rnd_zero[OF r] T by simp
  show "rnd ?T \<le> 2" using rnd_mono[OF r, of ?T 2] rnd_two[OF r] T by simp
  have Be: "\<bar>rnd ?T - ?T\<bar> \<le> u * 2" using rnd_err_bound[OF r u, of ?T 2] T by simp
  show "\<bar>rnd ?T - (2 - 2 * c)\<bar> \<le> 4 * u" using Ae Be by linarith
qed

lemma sqrt_fl:
  assumes r: "rounds_within u rnd" and u: "0 \<le> u" "u \<le> 1" and B: "0 \<le> B" "B \<le> 2"
  shows "\<bar>(rnd (sqrt B))\<^sup>2 - B\<bar> \<le> 6 * u"
proof -
  let ?s = "sqrt B"
  have s0: "0 \<le> ?s" using B by simp
  have ss: "?s * ?s = B" using B by simp
  obtain e where e: "rnd ?s = ?s + e" by (metis add_diff_cancel_left' add.commute diff_add_cancel)
  have ee: "\<bar>e\<bar> \<le> u * ?s" using rnd_err[OF r, of ?s] e s0 by simp
  have "(rnd ?s)\<^sup>2 - B = 2 * ?s * e + e * e"
    using e ss by (simp add: power2_eq_square algebra_simps)
  moreover have "\<bar>2 * ?s * e\<bar> \<le> 2 * ?s * (u * ?s)"
    using ee s0 by (simp add: abs_mult mult_left_mono)
  moreover have "\<bar>e * e\<bar> \<le> (u * ?s) * (u * ?s)"
  proof -
    have "\<bar>e\<bar> * \<bar>e\<bar> \<le> (u * ?s) * (u * ?s)"
      using ee by (intro mult_mono) auto
    then show ?thesis by (simp add: abs_mult)
  qed
  moreover have "2 * ?s * (u * ?s) = 2 * u * B" using ss by (simp add: algebra_simps)
  moreover have "(u * ?s) * (u * ?s) = u * u * B"
    using ss by (metis mult.assoc mult.left_commute)
  moreover have "2 * u * B \<le> 4 * u"
  proof -
    have "(2 * u) * B \<le> (2 * u) * 2" using u B by (intro mult_left_mono) auto
    then show ?thesis by simp
  qed
  moreover have "u * u * B \<le> 2 * u"
  proof -
    have "u * u \<le> u" using u by (simp add: mult_left_le)
    then have "u * u * B \<le> u * B" using B by (intro mult_right_mono) auto
    moreover have "u * B \<le> u * 2" using u B by (intro mult_left_mono) auto
    ultimately show ?thesis by linarith
  qed
  ultimately show ?thesis by linarith
qed


lemma roundtrip_fl:
  assumes r: "rounds_within u rnd" and u: "0 \<le> u" "u \<le> 1 / 10" and c: "0 \<le> c" "c \<le> 1"
  shows "\<bar>l2_to_cosine_similarity_fl rnd (rnd (sqrt (rnd (2 - rnd (2 * c))))) - c\<bar> \<le> 11 * u"
proof -
  let ?B = "rnd (2 - rnd (2 * c))"
  let ?d = "rnd (sqrt ?B)"
  have u1: "u \<le> 1" using u by simp
  note B = radicand_fl [OF r u(1) c]
  have d2: "\<bar>?d\<^sup>2 - ?B\<bar> \<le> 6 * u"
    using sqrt_fl [OF r u(1) u1 B(1) B(2)] .
  have d2b: "\<bar>?d\<^sup>2\<bar> \<le> 3" using d2 B(1) B(2) u by linarith
  let ?P = "rnd (?d\<^sup>2)"
  have Pe: "\<bar>?P - ?d\<^sup>2\<bar> \<le> u * 3" using rnd_err_bound [OF r u(1) d2b] .
  have Pb: "\<bar>?P / 2\<bar> \<le> 2" using Pe d2b u by linarith
  let ?H = "rnd (?P / 2)"
  have He: "\<bar>?H - ?P / 2\<bar> \<le> u * 2" using rnd_err_bound [OF r u(1) Pb] .
  have Hc: "\<bar>?H - (1 - c)\<bar> \<le> 17 / 2 * u"
    using He Pe d2 B(3) by linarith
  have Rb: "\<bar>1 - ?H\<bar> \<le> 2" using Hc c u by linarith
  have Re: "\<bar>rnd (1 - ?H) - (1 - ?H)\<bar> \<le> u * 2" using rnd_err_bound [OF r u(1) Rb] .
  have "\<bar>rnd (1 - ?H) - c\<bar> \<le> 11 * u" using Re Hc by linarith
  then show ?thesis by (simp add: l2_to_cosine_similarity_fl_def)
qed

lemma fl_exact:
  "cosine_to_l2_threshold_fl (\<lambda>y. y) c = cosine_to_l2_threshold c"
  "l2_to_cosine_similarity_fl (\<lambda>y. y) d = l2_to_cosine_similarity d"
  by (simp_all add: cosine_to_l2_threshold_fl_def cosine_to_l2_threshold_def
        l2_to_cosine_similarity_fl_def l2_to_cosine_similarity_def)

lemma rounds_within_exact: "0 \<le> u \<Longrightarrow> rounds_within u (\<lambda>y. y)"
  by (simp add: rounds_within_def)

text \<open>
  Claim C2. For every \<open>x\<close> in \<open>[0,1]\<close> the conversion to a distance succeeds and
  the conversion back returns \<open>x\<close>: exactly in real arithmetic, and within \<open>1e-4\<close>
  under any rounding of the operations with unit roundoff up to \<open>1e-6\<close> (the error is
  at most 11 roundoffs).
\<close>

theorem metric_conversion_roundtrip:
  assumes "0 \<le> x" and "x \<le> 1"
  shows "(\<exists>d. cosine_to_l2_threshold x = Inr d
            \<and> l2_to_cosine_similarity d = x
            \<and> \<bar>l2_to_cosine_similarity d - x\<bar> \<le> 1 / 10 ^ 4)
     \<and> (rounds_within u rnd \<and> 0 \<le> u \<and> u \<le> 1 / 10 ^ 6 \<longrightarrow>
          (\<exists>d. cosine_to_l2_threshold_fl rnd x = Inr d
            \<and> \<bar>l2_to_cosine_similarity_fl rnd d - x\<bar> \<le> 1 / 10 ^ 4))"
proof (intro conjI impI)
  have "l2_to_cosine_similarity (sqrt (2 - 2 * x)) = x"
    using assms by (simp add: l2_to_cosine_similarity_def field_simps)
  then show "\<exists>d. cosine_to_l2_threshold x = Inr d
            \<and> l2_to_cosine_similarity d = x
            \<and> \<bar>l2_to_cosine_similarity d - x\<bar> \<le> 1 / 10 ^ 4"
    using assms by (simp add: cosine_to_l2_threshold_def)
next
  assume a: "rounds_within u rnd \<and> 0 \<le> u \<and> u \<le> 1 / 10 ^ 6"
  then have r: "rounds_within u rnd" and u: "0 \<le> u" "u \<le> 1 / 10" "u \<le> 1 / 10 ^ 6"
    by simp_all
  have "\<bar>l2_to_cosine_similarity_fl rnd (rnd (sqrt (rnd (2 - rnd (2 * x))))) - x\<bar> \<le> 11 * u"
    using roundtrip_fl [OF r u(1) u(2) assms] .
  then have "\<bar>l2_to_cosine_similarity_fl rnd (rnd (sqrt (rnd (2 - rnd (2 * x))))) - x\<bar>
               \<le> 1 / 10 ^ 4"
    using u(3) by simp
  then show "\<exists>d. cosine_to_l2_threshold_fl rnd x = Inr d
            \<and> \<bar>l2_to_cosine_similarity_fl rnd d - x\<bar> \<le> 1 / 10 ^ 4"
    using assms by (simp add: cosine_to_l2_threshold_fl_def)
qed

theorem metric_conversion_roundtrip_witness:
  "(0::real) \<le> 1 / 2 \<and> (1 / 2 :: real) \<le> 1
   \<and> rounds_within (1 / 2 ^ 24) (\<lambda>y. y)
   \<and> cosine_to_l2_threshold (1 / 2) = Inr 1
   \<and> l2_to_cosine_similarity 1 = 1 / 2
   \<and> cosine_to_l2_threshold_fl (\<lambda>y. y) (1 / 2) = Inr 1
   \<and> \<bar>l2_to_cosine_similarity_fl (\<lambda>y. y) 1 - 1 / 2\<bar> \<le> 1 / 10 ^ 4"
proof -
  have h: "(0::real) \<le> 1 / 2" "(1 / 2 :: real) \<le> 1" by simp_all
  have rw: "rounds_within (1 / 2 ^ 24) (\<lambda>y. y)"
    by (rule rounds_within_exact) simp
  show ?thesis
    using metric_conversion_roundtrip [OF h, of "1 / 2 ^ 24" "\<lambda>y. y"] rw
    by (simp add: cosine_to_l2_threshold_def cosine_to_l2_threshold_fl_def
          l2_to_cosine_similarity_def l2_to_cosine_similarity_fl_def)
qed

section \<open>Properties of the index builder\<close>

lemma length_normalize_L2 [simp]: "length (normalize_L2 v) = length v"
  by (simp add: normalize_L2_def)

lemma add_untrained: "\<not> is_trained b \<Longrightarrow> add b vs ids = Inl RuntimeError"
  by (simp add: add_def)

lemma init_fields:
  "init d ty nl m' nb np g = Inr b \<Longrightarrow>
     dimension b = d \<and> index_type b = ty \<and> index b = None \<and> \<not> is_trained b"
  by (auto simp add: init_def split: if_splits)

lemma create_index_fields:
  "index (create_index b) =
     Some \<lparr>ix_kind = index_type b, ix_d = dimension b, ix_params = None, ix_rows = []\<rparr>"
  "index_type b \<noteq> FLAT \<Longrightarrow> is_trained (create_index b) = is_trained b"
  by (auto simp add: create_index_def Let_def split: IndexType.splits)

lemma add_trained:
  assumes "is_trained b" "index b = Some ix" "ix_d ix = d" "well_shaped d vs ids"
  shows "\<exists>b'. add b vs ids = Inr b' \<and> num_vectors b' = num_vectors b + length vs"
  using assms
  by (auto simp add: add_def add_with_ids_def well_shaped_def num_vectors_def ntotal_def Let_def
           split: option.splits)

lemma train_fresh:
  assumes "\<not> is_trained b" "index b = None"
  shows "is_trained (snd (train b tv))"
    "\<exists>ix. index (snd (train b tv)) = Some ix \<and> ix_d ix = dimension b \<and> ix_rows ix = []"
  using assms
  by (auto simp add: train_def Let_def create_index_fields faiss_train_def)

lemma train_created:
  assumes "\<not> is_trained b" "index b = Some ix"
  shows "is_trained (snd (train b tv))"
    "\<exists>ix'. index (snd (train b tv)) = Some ix' \<and> ix_d ix' = ix_d ix \<and> ix_rows ix' = ix_rows ix"
  using assms
  by (auto simp add: train_def Let_def faiss_train_def)

text \<open>
  Claim C4. On a clustered builder as \<open>__init__\<close> leaves it, and also once its index
  has been created, \<open>add\<close> raises \<open>RuntimeError\<close> (the specification's
  \<open>StateError\<close>); the exception leaves the builder as it was, holding no vectors. After
  \<open>train\<close>, \<open>add\<close> of a well-shaped batch succeeds and the index holds the batch.
\<close>

theorem add_before_train_fails_after_train_succeeds:
  assumes "init d ty nl m' nb np g = Inr b" and "ty \<noteq> FLAT"
  shows "add b vs ids = Inl RuntimeError
     \<and> add (create_index b) vs ids = Inl RuntimeError
     \<and> num_vectors b = 0 \<and> num_vectors (create_index b) = 0
     \<and> (well_shaped d vs ids \<longrightarrow>
          (\<exists>b'. add (snd (train b tv)) vs ids = Inr b' \<and> num_vectors b' = length vs)
        \<and> (\<exists>b'. add (snd (train (create_index b) tv)) vs ids = Inr b'
                  \<and> num_vectors b' = length vs))"
proof -
  from assms have f: "dimension b = d" "index_type b = ty" "index b = None" "\<not> is_trained b"
    using init_fields by blast+
  have before: "add b vs ids = Inl RuntimeError"
    using f by (simp add: add_untrained)
  have "\<not> is_trained (create_index b)"
    using f assms(2) by (simp add: create_index_fields)
  then have created: "add (create_index b) vs ids = Inl RuntimeError"
    by (simp add: add_untrained)
  have empty: "num_vectors b = 0" "num_vectors (create_index b) = 0"
    using f by (simp_all add: num_vectors_def create_index_fields ntotal_def)
  have after: "\<exists>b'. add (snd (train b tv)) vs ids = Inr b' \<and> num_vectors b' = length vs"
    if ws: "well_shaped d vs ids"
  proof -
    obtain ix where ix: "index (snd (train b tv)) = Some ix" "ix_d ix = d" "ix_rows ix = []"
      using train_fresh(2) [OF f(4) f(3)] f(1) by blast
    have "num_vectors (snd (train b tv)) = 0"
      using ix by (simp add: num_vectors_def ntotal_def)
    then show ?thesis
      using add_trained [OF train_fresh(1) [OF f(4) f(3)] ix(1) ix(2) ws] by simp
  qed
  have after_created:
    "\<exists>b'. add (snd (train (create_index b) tv)) vs ids = Inr b' \<and> num_vectors b' = length vs"
    if ws: "well_shaped d vs ids"
  proof -
    let ?c = "create_index b"
    have nt: "\<not> is_trained ?c"
      using f assms(2) by (simp add: create_index_fields)
    obtain ix0 where ix0: "index ?c = Some ix0" "ix_d ix0 = d" "ix_rows ix0 = []"
      using f by (simp add: create_index_fields)
    obtain ix where ix: "index (snd (train ?c tv)) = Some ix" "ix_d ix = d" "ix_rows ix = []"
      using train_created(2) [OF nt ix0(1)] ix0 by auto
    have "num_vectors (snd (train ?c tv)) = 0"
      using ix by (simp add: num_vectors_def ntotal_def)
    then show ?thesis
      using add_trained [OF train_created(1) [OF nt ix0(1)] ix(1) ix(2) ws] by simp
  qed
  show ?thesis using before created empty after after_created by blast
qed

theorem add_before_train_fails_after_train_succeeds_witness:
  "init 2 IVF_FLAT 1 1 8 1 False = Inr fresh_ivf
   \<and> add fresh_ivf [[1, 0]] None = Inl RuntimeError
   \<and> add (create_index fresh_ivf) [[1, 0]] None = Inl RuntimeError
   \<and> well_shaped 2 [[1, 0]] None
   \<and> (\<exists>b'. add (snd (train fresh_ivf [[3, 4]])) [[1, 0]] None = Inr b' \<and> num_vectors b' = 1)"
proof -
  have i: "init 2 IVF_FLAT 1 1 8 1 False = Inr fresh_ivf"
    by (simp add: init_def fresh_ivf_def)
  have t: "IVF_FLAT \<noteq> FLAT" by simp
  have w: "well_shaped 2 [[1, 0]] None"
    by (simp add: well_shaped_def)
  show ?thesis
    using add_before_train_fails_after_train_succeeds
            [OF i t, of "[[1, 0]]" None "[[3, 4]]"] i w
    by simp
qed

text \<open>
  Claim C5, amended. Construction raises \<open>ValueError\<close> (the specification's
  \<open>ConfigurationError\<close>) exactly when the non-zero \<open>m\<close> does not divide the dimension,
  and succeeds exactly when it does, for every index type: the check does not look at
  the backend.
\<close>

theorem init_fails_iff_m_does_not_divide:
  "(init d ty nl m' nb np g = Inl ValueError \<longleftrightarrow> m' \<noteq> 0 \<and> d mod m' \<noteq> 0)
   \<and> ((\<exists>b. init d ty nl m' nb np g = Inr b) \<longleftrightarrow> m' \<noteq> 0 \<and> d mod m' = 0)"
  by (simp add: init_def)

theorem init_fails_iff_m_does_not_divide_witness:
  "init 100 IVF_FLAT 4096 64 8 16 False = Inl ValueError
   \<and> (\<exists>b. init 768 FLAT 4096 64 8 16 False = Inr b)"
  using init_fails_iff_m_does_not_divide [of 100 IVF_FLAT 4096 64 8 16 False]
    init_fails_iff_m_does_not_divide [of 768 FLAT 4096 64 8 16 False]
  by simp

text \<open>
  Claim C5 as stated fails: an exact-backend builder of dimension 100 with the default
  \<open>m = 64\<close> is rejected, although the backend is not quantized.
\<close>

theorem init_flat_rejected_counterexample:
  "init 100 FLAT 4096 64 8 16 False = Inl ValueError"
  by (simp add: init_def)

text \<open>
  Claim C6. \<open>train\<close> on a trained builder logs a warning and returns the builder as it
  is (index, trained parameters and stored vectors included); in particular a second
  \<open>train\<close> after a first changes nothing. \<open>train\<close> has no error result.
\<close>

theorem train_idempotent:
  "(is_trained b \<longrightarrow> train b v = ([Warning ''Index is already trained, skipping''], b))
   \<and> train (snd (train b v)) v' =
       ([Warning ''Index is already trained, skipping''], snd (train b v))"
  by (simp add: train_def Let_def)

theorem train_idempotent_witness:
  "is_trained trained_ivf
   \<and> train trained_ivf [[1, 0]] = ([Warning ''Index is already trained, skipping''], trained_ivf)
   \<and> num_vectors (snd (train trained_ivf [[1, 0]])) = num_vectors trained_ivf"
  using train_idempotent [of trained_ivf "[[1, 0]]" "[[1, 0]]"]
  by (simp add: trained_ivf_def train_def fresh_ivf_def Let_def)

section \<open>Properties of the metadata store\<close>

lemma row_id_mk_row [simp]: "row_id (mk_row i sn) = i"
  by (simp add: mk_row_def)

lemma ids_insert_or_replace:
  "row_id ` set (insert_or_replace r st) = insert (row_id r) (row_id ` set st)"
  by (auto simp add: insert_or_replace_def)

lemma distinct_insert_or_replace:
  "distinct (map row_id st) \<Longrightarrow> distinct (map row_id (insert_or_replace r st))"
  by (auto simp add: insert_or_replace_def distinct_map_filter)

lemma find_filter_other:
  "find (\<lambda>r. row_id r = i) (filter (\<lambda>r'. row_id r' \<noteq> j) st) =
     (if i = j then None else find (\<lambda>r. row_id r = i) st)"
  by (induction st) auto

lemma find_append:
  "find P (xs @ ys) = (case find P xs of None \<Rightarrow> find P ys | Some x \<Rightarrow> Some x)"
  by (induction xs) auto

lemma get_insert_or_replace:
  "get_snippet (insert_or_replace r st) i = (if i = row_id r then Some r else get_snippet st i)"
  by (auto simp add: get_snippet_def insert_or_replace_def find_append find_filter_other
      split: option.splits)

lemma ids_batch:
  "row_id ` set (add_snippets_batch st b) = row_id ` set st \<union> fst ` set b"
  unfolding add_snippets_batch_def
proof (induction b arbitrary: st)
  case Nil
  then show ?case by simp
next
  case (Cons x b)
  obtain j sn where x: "x = (j, sn)" by (cases x)
  show ?case
    by (simp add: Cons.IH x ids_insert_or_replace Un_commute insert_commute)
qed

lemma distinct_batch:
  "distinct (map row_id st) \<Longrightarrow> distinct (map row_id (add_snippets_batch st b))"
  unfolding add_snippets_batch_def
  by (induction b arbitrary: st) (auto simp add: distinct_insert_or_replace)

lemma get_batch:
  "get_snippet (add_snippets_batch st b) i =
     (case map_of (rev b) i of Some sn \<Rightarrow> Some (mk_row i sn) | None \<Rightarrow> get_snippet st i)"
  unfolding add_snippets_batch_def
proof (induction b arbitrary: st)
  case Nil
  then show ?case by simp
next
  case (Cons x b)
  obtain j sn where x: "x = (j, sn)" by (cases x)
  show ?case
    by (simp add: Cons.IH x get_insert_or_replace map_add_def split: option.splits)
qed

lemma count_distinct:
  "distinct (map row_id st) \<Longrightarrow> count st = card (row_id ` set st)"
  by (metis count_def distinct_card length_map set_map)

lemma one_row:
  assumes "distinct (map row_id st)" "i \<in> row_id ` set st"
  shows "length (filter (\<lambda>r. row_id r = i) st) = 1"
  using assms by (induction st) (auto simp add: filter_empty_conv image_iff)

text \<open>
  Claim C9. From a store that respects its primary key (the empty store does), two
  batch upserts leave the key respected: each ID written has exactly one row, the row
  of an ID is the one of its last write in the two batches (an ID that neither batch
  writes keeps its row), and \<open>count\<close> is the number of distinct IDs.
\<close>

theorem upsert_batches_last_write_wins:
  assumes "distinct (map row_id store)"
  shows "distinct (map row_id (add_snippets_batch (add_snippets_batch store b1) b2))
    \<and> (\<forall>i \<in> fst ` set b1 \<union> fst ` set b2.
          length (filter (\<lambda>r. row_id r = i)
                    (add_snippets_batch (add_snippets_batch store b1) b2)) = 1)
    \<and> (\<forall>i. get_snippet (add_snippets_batch (add_snippets_batch store b1) b2) i =
          (case map_of (rev (b1 @ b2)) i of
             Some sn \<Rightarrow> Some (mk_row i sn)
           | None \<Rightarrow> get_snippet store i))
    \<and> count (add_snippets_batch (add_snippets_batch store b1) b2) =
        card (row_id ` set store \<union> fst ` set b1 \<union> fst ` set b2)"
proof -
  let ?s = "add_snippets_batch (add_snippets_batch store b1) b2"
  have d: "distinct (map row_id ?s)"
    using assms by (simp add: distinct_batch)
  have ids: "row_id ` set ?s = row_id ` set store \<union> fst ` set b1 \<union> fst ` set b2"
    by (simp add: ids_batch)
  have one: "\<forall>i \<in> fst ` set b1 \<union> fst ` set b2. length (filter (\<lambda>r. row_id r = i) ?s) = 1"
    using one_row [OF d] ids by blast
  have g: "\<forall>i. get_snippet ?s i =
          (case map_of (rev (b1 @ b2)) i of
             Some sn \<Rightarrow> Some (mk_row i sn)
           | None \<Rightarrow> get_snippet store i)"
    by (simp add: get_batch map_add_def split: option.splits)
  have c: "count ?s = card (row_id ` set store \<union> fst ` set b1 \<union> fst ` set b2)"
    using count_distinct [OF d] ids by simp
  show ?thesis using d one g c by blast
qed

theorem upsert_batches_last_write_wins_witness:
  "distinct (map row_id ([] :: MetadataStore))
   \<and> count (add_snippets_batch (add_snippets_batch [] first_batch) second_batch) = 3
   \<and> get_snippet (add_snippets_batch (add_snippets_batch [] first_batch) second_batch) 2 =
       Some (mk_row 2 snippet_g)
   \<and> get_snippet (add_snippets_batch (add_snippets_batch [] first_batch) second_batch) 1 =
       Some (mk_row 1 snippet_f)"
proof -
  have d: "distinct (map row_id ([] :: MetadataStore))" by simp
  have "row_id ` set ([] :: MetadataStore) \<union> fst ` set first_batch
          \<union> fst ` set second_batch = {1, 2, 3}"
    by (auto simp add: first_batch_def second_batch_def)
  then have c: "card (row_id ` set ([] :: MetadataStore) \<union> fst ` set first_batch
                 \<union> fst ` set second_batch) = 3"
    by simp
  show ?thesis
    using upsert_batches_last_write_wins [OF d, of first_batch second_batch] c
    by (simp add: first_batch_def second_batch_def)
qed

section \<open>Properties of hydration and search\<close>

lemma hydrate_loop_map_filter:
  "hydrate_loop mm ex hits =
     map (\<lambda>h. mk_clone (fst h) (the (mm (fst h))) (snd h)) (filter (keeps mm ex) hits)"
  by (induction mm ex hits rule: hydrate_loop.induct)
     (auto simp add: keeps_def split: option.splits)

lemma mk_clone_sel [simp]:
  "snippet_id (mk_clone i r x) = i" "similarity (mk_clone i r x) = x"
  by (simp_all add: mk_clone_def)

lemma hydrate_loop_excludes:
  "c \<in> set (hydrate_loop mm True hits) \<Longrightarrow> similarity c < 0.9999"
  by (auto simp add: hydrate_loop_map_filter keeps_def)

lemma hydrate_results_excludes:
  "c \<in> set (hydrate_results s ids sims True) \<Longrightarrow> similarity c < 0.9999"
  by (auto simp add: hydrate_results_def dest: hydrate_loop_excludes split: if_splits)

lemma set_sort_clones [simp]: "set (sort_clones xs) = set xs"
  by (simp add: sort_clones_def)

lemma query_results_cases:
  assumes "query_results s (lims, D, I) i ex = Inr clones"
  obtains a b where "item lims i = Inr a" "item lims (i + 1) = Inr b"
    "clones = sort_clones (hydrate_results s (slice I a b)
                (map l2_to_cosine_similarity (slice D a b)) ex)"
  using assms by (auto simp add: Let_def split: sum.splits)

lemma query_results_excludes:
  assumes "query_results s res i True = Inr clones" "c \<in> set clones"
  shows "similarity c < 0.9999"
proof -
  obtain lims D I where res: "res = (lims, D, I)" by (cases res)
  from assms(1) res obtain a b where
    "clones = sort_clones (hydrate_results s (slice I a b)
                (map l2_to_cosine_similarity (slice D a b)) True)"
    using query_results_cases by blast
  then show ?thesis using assms(2) hydrate_results_excludes by simp
qed

lemma batch_loop_excludes:
  "batch_loop s res is = Inr all_results \<Longrightarrow> r \<in> set all_results \<Longrightarrow> c \<in> set r
     \<Longrightarrow> similarity c < 0.9999"
proof (induction "is" arbitrary: all_results)
  case Nil
  then show ?case by simp
next
  case (Cons i "is")
  from Cons.prems(1) obtain clones rest where
    split: "query_results s res i True = Inr clones" "batch_loop s res is = Inr rest"
      "all_results = clones # rest"
    by (auto split: sum.splits)
  from Cons.prems(2) split(3) have "r = clones \<or> r \<in> set rest" by auto
  then show ?case
    using query_results_excludes [OF split(1)] Cons.IH [OF split(2)] Cons.prems(3) by blast
qed

lemma batch_loop_length:
  "batch_loop s res is = Inr all_results \<Longrightarrow> length all_results = length is"
  by (induction "is" arbitrary: all_results) (auto split: sum.splits)

text \<open>
  Claim C10. \<open>find_clones_batch\<close> has no parameter for self-match exclusion and calls
  \<open>_hydrate_results\<close> with its default: whenever it returns, it returns one list per
  query, and no match of any list has a similarity \<open>>= 0.9999\<close>.
\<close>

theorem find_clones_batch_excludes_self_matches:
  assumes "find_clones_batch s query_codes t = Inr all_results"
  shows "length all_results = length query_codes
     \<and> (\<forall>r \<in> set all_results. \<forall>c \<in> set r. similarity c < 0.9999)"
proof (cases "query_codes = []")
  case True
  then show ?thesis using assms by (auto simp add: find_clones_batch_def)
next
  case False
  then obtain res where b: "batch_loop s res [0 ..< length query_codes] = Inr all_results"
    using assms by (auto simp add: find_clones_batch_def Let_def split: sum.splits)
  have "length all_results = length query_codes"
    using batch_loop_length [OF b] by simp
  moreover have "\<forall>r \<in> set all_results. \<forall>c \<in> set r. similarity c < 0.9999"
    using batch_loop_excludes [OF b] by blast
  ultimately show ?thesis by blast
qed

lemma set_prefix_upto: "set (prefix_upto xs n) \<subseteq> set xs"
  by (auto simp add: prefix_upto_def dest: in_set_takeD)













lemma find_clones_results:
  assumes "find_clones s q t mr ex = Inr res"
    and "cosine_to_l2_threshold t = Inr r"
    and "range_search s [normalize_L2 (embed_single s q)] r = Inr (lims, D, I)"
  obtains clones where "query_results s (lims, D, I) 0 ex = Inr clones"
    "res = (case mr of None \<Rightarrow> clones | Some n \<Rightarrow> if n \<noteq> 0 then prefix_upto clones n else clones)"
proof -
  from assms obtain clones where c: "query_results s (lims, D, I) 0 ex = Inr clones"
    by (auto simp add: find_clones_def Let_def split: sum.splits)
  have "res = (case mr of None \<Rightarrow> clones | Some n \<Rightarrow> if n \<noteq> 0 then prefix_upto clones n else clones)"
    using assms c by (auto simp add: find_clones_def Let_def split: option.splits if_splits)
  then show ?thesis using that c by blast
qed



lemma metadata_map_defined:
  assumes "sid \<in> set ids" "sid \<in> row_id ` set store"
  shows "metadata_map (get_snippets store ids) sid \<noteq> None"
proof -
  from assms(2) obtain r where r: "r \<in> set store" "row_id r = sid" by auto
  have ne: "ids \<noteq> []" using assms(1) by auto
  have "r \<in> set (get_snippets store ids)"
    using r assms(1) ne by (simp add: get_snippets_def)
  then have "sid \<in> fst ` set (rev (map (\<lambda>r. (row_id r, r)) (get_snippets store ids)))"
    using r(2) by force
  moreover have "(map_of (rev (map (\<lambda>r. (row_id r, r)) (get_snippets store ids))) sid = None) =
      (sid \<notin> fst ` set (rev (map (\<lambda>r. (row_id r, r)) (get_snippets store ids))))"
    by (rule map_of_eq_None_iff)
  ultimately show ?thesis
    unfolding metadata_map_def by blast
qed

lemma hydrate_results_keeps:
  assumes "(sid, sim) \<in> set (zip ids sims)" "sid \<in> row_id ` set (metadata_store s)"
  shows "\<exists>c \<in> set (hydrate_results s ids sims False). snippet_id c = sid \<and> similarity c = sim"
proof -
  let ?mm = "metadata_map (get_snippets (metadata_store s) ids)"
  have sid: "sid \<in> set ids" using assms(1) by (rule set_zip_leftD)
  then have ne: "length ids \<noteq> 0" by auto
  have "?mm sid \<noteq> None" using sid assms(2) by (rule metadata_map_defined)
  then have "keeps ?mm False (sid, sim)" by (simp add: keeps_def)
  then have "mk_clone sid (the (?mm sid)) sim \<in> set (hydrate_loop ?mm False (zip ids sims))"
    using assms(1) by (force simp add: hydrate_loop_map_filter)
  then have "mk_clone sid (the (?mm sid)) sim \<in> set (hydrate_results s ids sims False)"
    using ne by (simp add: hydrate_results_def)
  then show ?thesis
    using mk_clone_sel by blast
qed

lemma find_clones_subset:
  assumes "find_clones s q t mr ex = Inr res"
  obtains res0 clones where "query_results s res0 0 ex = Inr clones" "set res \<subseteq> set clones"
proof -
  from assms obtain r where r: "cosine_to_l2_threshold t = Inr r"
    by (auto simp add: find_clones_def Let_def split: sum.splits)
  from assms r obtain rr where rr: "range_search s [normalize_L2 (embed_single s q)] r = Inr rr"
    by (auto simp add: find_clones_def Let_def split: sum.splits)
  obtain lims D I where rr': "rr = (lims, D, I)" by (cases rr)
  obtain clones where c: "query_results s (lims, D, I) 0 ex = Inr clones"
    "res = (case mr of None \<Rightarrow> clones | Some n \<Rightarrow> if n \<noteq> 0 then prefix_upto clones n else clones)"
    using find_clones_results [OF assms r] rr rr' by blast
  have "set res \<subseteq> set clones"
    using c(2) set_prefix_upto [of clones] by (auto split: option.splits)
  then show ?thesis using that c(1) by blast
qed

text \<open>
  Claim C7. With \<open>exclude_self\<close> set, no match of the list \<open>find_clones\<close> returns has a
  similarity \<open>>= 0.9999\<close>. With \<open>exclude_self\<close> unset (and no \<open>max_results\<close>), every
  hit of the search whose ID has a metadata row is in the list with its similarity, a
  hit of similarity \<open>>= 0.9999\<close> included.
\<close>

theorem self_match_exclusion:
  "(find_clones s q t mr True = Inr res \<longrightarrow> (\<forall>c \<in> set res. similarity c < 0.9999))
   \<and> (find_clones s q t None False = Inr res'
       \<and> cosine_to_l2_threshold t = Inr r
       \<and> range_search s [normalize_L2 (embed_single s q)] r = Inr (lims, D, I)
       \<and> item lims 0 = Inr a \<and> item lims 1 = Inr b
       \<and> (sid, d) \<in> set (zip (slice I a b) (slice D a b))
       \<and> sid \<in> row_id ` set (metadata_store s)
      \<longrightarrow> (\<exists>c \<in> set res'. snippet_id c = sid \<and> similarity c = l2_to_cosine_similarity d))"
proof (intro conjI impI)
  assume a1: "find_clones s q t mr True = Inr res"
  then obtain res0 clones where c: "query_results s res0 0 True = Inr clones" "set res \<subseteq> set clones"
    by (rule find_clones_subset)
  show "\<forall>c \<in> set res. similarity c < 0.9999"
    using query_results_excludes [OF c(1)] c(2) by blast
next
  assume a2: "find_clones s q t None False = Inr res'
       \<and> cosine_to_l2_threshold t = Inr r
       \<and> range_search s [normalize_L2 (embed_single s q)] r = Inr (lims, D, I)
       \<and> item lims 0 = Inr a \<and> item lims 1 = Inr b
       \<and> (sid, d) \<in> set (zip (slice I a b) (slice D a b))
       \<and> sid \<in> row_id ` set (metadata_store s)"
  then have f: "find_clones s q t None False = Inr res'" "cosine_to_l2_threshold t = Inr r"
    "range_search s [normalize_L2 (embed_single s q)] r = Inr (lims, D, I)"
    "item lims 0 = Inr a" "item lims 1 = Inr b"
    "(sid, d) \<in> set (zip (slice I a b) (slice D a b))"
    "sid \<in> row_id ` set (metadata_store s)"
    by blast+
  have res': "res' = sort_clones (hydrate_results s (slice I a b)
                (map l2_to_cosine_similarity (slice D a b)) False)"
    using f(1-5) by (simp add: find_clones_def Let_def)
  have "(sid, l2_to_cosine_similarity d)
          \<in> set (zip (slice I a b) (map l2_to_cosine_similarity (slice D a b)))"
    using f(6) by (force simp add: zip_map2)
  then have "\<exists>c \<in> set (hydrate_results s (slice I a b)
                (map l2_to_cosine_similarity (slice D a b)) False).
               snippet_id c = sid \<and> similarity c = l2_to_cosine_similarity d"
    using f(7) by (rule hydrate_results_keeps)
  then show "\<exists>c \<in> set res'. snippet_id c = sid \<and> similarity c = l2_to_cosine_similarity d"
    by (simp add: res')
qed


section \<open>The example searcher\<close>

lemma normalize_query: "normalize_L2 [1, 0] = [1, 0]"
  by (simp add: normalize_L2_def l2_norm_def)

lemma distance_twin: "l2_distance [1, 0] [3 / 5, 4 / 5] = sqrt (4 / 5)"
  by (simp add: l2_distance_def power2_eq_square)

lemma distance_self: "l2_distance [1, 0] [1, 0] = 0"
  by (simp add: l2_distance_def)

lemma twin_range:
  "flat_range_search twin_index [[1, 0]] 1 =
     Inr ([0, 3], [sqrt (4 / 5), sqrt (4 / 5), 0], [7, 3, 5])"
  by (simp add: flat_range_search_def twin_index_def flat_hits_def distance_twin distance_self)

lemma twin_range2:
  "flat_range_search twin_index [[1, 0], [1, 0]] 1 =
     Inr ([0, 3, 6], [sqrt (4 / 5), sqrt (4 / 5), 0, sqrt (4 / 5), sqrt (4 / 5), 0], [7, 3, 5, 7, 3, 5])"
  by (simp add: flat_range_search_def twin_index_def flat_hits_def distance_twin distance_self)

lemma threshold_half: "cosine_to_l2_threshold (1 / 2) = Inr 1"
  by (simp add: cosine_to_l2_threshold_def)

lemma twin_map:
  "metadata_map (get_snippets twin_store [7, 3, 5]) 7 = Some (mk_row 7 snippet_f)"
  "metadata_map (get_snippets twin_store [7, 3, 5]) 3 = Some (mk_row 3 snippet_g)"
  "metadata_map (get_snippets twin_store [7, 3, 5]) 5 = Some (mk_row 5 snippet_f)"
  by (simp_all add: metadata_map_def get_snippets_def twin_store_def)

lemma twin_similarities: "l2_to_cosine_similarity (sqrt (4 / 5)) = 3 / 5" "l2_to_cosine_similarity 0 = 1"
  by (simp_all add: l2_to_cosine_similarity_def)

lemma twin_hydrate_True:
  "hydrate_results twin_searcher [7, 3, 5] [3 / 5, 3 / 5, 1] True =
     [mk_clone 7 (mk_row 7 snippet_f) (3 / 5), mk_clone 3 (mk_row 3 snippet_g) (3 / 5)]"
  by (simp add: hydrate_results_def twin_searcher_def flat_searcher_def twin_map)

lemma twin_hydrate_False:
  "hydrate_results twin_searcher [7, 3, 5] [3 / 5, 3 / 5, 1] False =
     [mk_clone 7 (mk_row 7 snippet_f) (3 / 5), mk_clone 3 (mk_row 3 snippet_g) (3 / 5),
      mk_clone 5 (mk_row 5 snippet_f) 1]"
  by (simp add: hydrate_results_def twin_searcher_def flat_searcher_def twin_map)

lemma twin_query_True:
  "query_results twin_searcher ([0, 3], [sqrt (4 / 5), sqrt (4 / 5), 0], [7, 3, 5]) 0 True =
     Inr [mk_clone 7 (mk_row 7 snippet_f) (3 / 5), mk_clone 3 (mk_row 3 snippet_g) (3 / 5)]"
  by (simp add: item_def slice_def twin_similarities twin_hydrate_True sort_clones_def)

lemma twin_query_False:
  "query_results twin_searcher ([0, 3], [sqrt (4 / 5), sqrt (4 / 5), 0], [7, 3, 5]) 0 False =
     Inr [mk_clone 5 (mk_row 5 snippet_f) 1, mk_clone 7 (mk_row 7 snippet_f) (3 / 5),
          mk_clone 3 (mk_row 3 snippet_g) (3 / 5)]"
  by (simp add: item_def slice_def twin_similarities twin_hydrate_False sort_clones_def)

lemma twin_searcher_fields: "range_search twin_searcher = flat_range_search twin_index"
  "embed_single twin_searcher q = [1, 0]" "embed_batch twin_searcher qs = map (\<lambda>q. [1, 0]) qs"
  by (simp_all add: twin_searcher_def flat_searcher_def)

lemma twin_find_True:
  "find_clones twin_searcher ''def f(): pass'' (1 / 2) None True =
     Inr [mk_clone 7 (mk_row 7 snippet_f) (3 / 5), mk_clone 3 (mk_row 3 snippet_g) (3 / 5)]"
  by (simp add: find_clones_def twin_searcher_fields normalize_query threshold_half twin_range
        twin_query_True del: query_results.simps)

lemma twin_find_False:
  "find_clones twin_searcher ''def f(): pass'' (1 / 2) None False =
     Inr [mk_clone 5 (mk_row 5 snippet_f) 1, mk_clone 7 (mk_row 7 snippet_f) (3 / 5),
          mk_clone 3 (mk_row 3 snippet_g) (3 / 5)]"
  by (simp add: find_clones_def twin_searcher_fields normalize_query threshold_half twin_range
        twin_query_False del: query_results.simps)


lemma twin_query_batch:
  "query_results twin_searcher
     ([0, 3, 6], [sqrt (4 / 5), sqrt (4 / 5), 0, sqrt (4 / 5), sqrt (4 / 5), 0], [7, 3, 5, 7, 3, 5])
     0 True =
     Inr [mk_clone 7 (mk_row 7 snippet_f) (3 / 5), mk_clone 3 (mk_row 3 snippet_g) (3 / 5)]"
  "query_results twin_searcher
     ([0, 3, 6], [sqrt (4 / 5), sqrt (4 / 5), 0, sqrt (4 / 5), sqrt (4 / 5), 0], [7, 3, 5, 7, 3, 5])
     (Suc 0) True =
     Inr [mk_clone 7 (mk_row 7 snippet_f) (3 / 5), mk_clone 3 (mk_row 3 snippet_g) (3 / 5)]"
  by (simp_all add: item_def slice_def twin_similarities twin_hydrate_True sort_clones_def)

lemma twin_batch:
  "find_clones_batch twin_searcher [''def f(): pass'', ''def g(): pass''] (1 / 2) =
     Inr [[mk_clone 7 (mk_row 7 snippet_f) (3 / 5), mk_clone 3 (mk_row 3 snippet_g) (3 / 5)],
          [mk_clone 7 (mk_row 7 snippet_f) (3 / 5), mk_clone 3 (mk_row 3 snippet_g) (3 / 5)]]"
  by (simp add: find_clones_batch_def twin_searcher_fields normalize_query threshold_half
        twin_range2 twin_query_batch upt_rec del: query_results.simps)

theorem find_clones_batch_excludes_self_matches_witness:
  "find_clones_batch twin_searcher [''def f(): pass'', ''def g(): pass''] (1 / 2) =
     Inr [[mk_clone 7 (mk_row 7 snippet_f) (3 / 5), mk_clone 3 (mk_row 3 snippet_g) (3 / 5)],
          [mk_clone 7 (mk_row 7 snippet_f) (3 / 5), mk_clone 3 (mk_row 3 snippet_g) (3 / 5)]]
   \<and> similarity (mk_clone 7 (mk_row 7 snippet_f) (3 / 5)) < 0.9999
   \<and> similarity (mk_clone 3 (mk_row 3 snippet_g) (3 / 5)) < 0.9999"
  using find_clones_batch_excludes_self_matches [OF twin_batch] twin_batch by simp

theorem self_match_exclusion_witness:
  "find_clones twin_searcher ''def f(): pass'' (1 / 2) None True =
     Inr [mk_clone 7 (mk_row 7 snippet_f) (3 / 5), mk_clone 3 (mk_row 3 snippet_g) (3 / 5)]
   \<and> similarity (mk_clone 7 (mk_row 7 snippet_f) (3 / 5)) < 0.9999
   \<and> similarity (mk_clone 3 (mk_row 3 snippet_g) (3 / 5)) < 0.9999
   \<and> (\<exists>res'. find_clones twin_searcher ''def f(): pass'' (1 / 2) None False = Inr res'
         \<and> (\<exists>c \<in> set res'. snippet_id c = 5 \<and> similarity c = 1))"
proof -
  have hit: "(5, 0) \<in> set (zip (slice [7, 3, 5] 0 3) (slice [sqrt (4 / 5), sqrt (4 / 5), 0] 0 3))"
    by (simp add: slice_def)
  have meta: "5 \<in> row_id ` set (metadata_store twin_searcher)"
    by (simp add: twin_searcher_def flat_searcher_def twin_store_def)
  have lims: "item [0, 3] 0 = Inr 0" "item [0, 3] 1 = Inr 3"
    by (simp_all add: item_def)
  have rs: "range_search twin_searcher [normalize_L2 (embed_single twin_searcher ''def f(): pass'')] 1 =
      Inr ([0, 3], [sqrt (4 / 5), sqrt (4 / 5), 0], [7, 3, 5])"
    by (simp add: twin_searcher_fields normalize_query twin_range)
  show ?thesis
    using self_match_exclusion [of twin_searcher "''def f(): pass''" "1 / 2" None
        "[mk_clone 7 (mk_row 7 snippet_f) (3 / 5), mk_clone 3 (mk_row 3 snippet_g) (3 / 5)]"
        "[mk_clone 5 (mk_row 5 snippet_f) 1, mk_clone 7 (mk_row 7 snippet_f) (3 / 5),
          mk_clone 3 (mk_row 3 snippet_g) (3 / 5)]"
        1 "[0, 3]" "[sqrt (4 / 5), sqrt (4 / 5), 0]" "[7, 3, 5]" 0 3 5 0]
      twin_find_True twin_find_False threshold_half rs lims hit meta twin_similarities(2)
    by auto
qed




section \<open>Exact search against the ground truth\<close>

lemma sum_sq_nonneg: "0 \<le> (\<Sum>a\<leftarrow>v. a ^ 2 :: real)"
  by (rule sum_list_nonneg) auto






lemma l2_norm_normalize:
  assumes "l2_norm v \<noteq> 0"
  shows "l2_norm (normalize_L2 v) = 1"
proof -
  let ?n = "l2_norm v"
  have n2: "?n ^ 2 = (\<Sum>a\<leftarrow>v. a ^ 2)"
    unfolding l2_norm_def using sum_sq_nonneg by simp
  have "(\<Sum>a\<leftarrow>map (\<lambda>a. a / ?n) v. a ^ 2) = (\<Sum>a\<leftarrow>v. a ^ 2 * (1 / ?n ^ 2))"
    by (simp add: comp_def power_divide)
  also have "\<dots> = (\<Sum>a\<leftarrow>v. a ^ 2) * (1 / ?n ^ 2)"
    by (rule sum_list_mult_const)
  also have "\<dots> = ?n ^ 2 * (1 / ?n ^ 2)"
    by (simp only: n2)
  also have "\<dots> = 1"
    using assms by simp
  finally have "(\<Sum>a\<leftarrow>map (\<lambda>a. a / ?n) v. a ^ 2) = 1" .
  then have "l2_norm (map (\<lambda>a. a / ?n) v) = 1"
    by (simp add: l2_norm_def)
  then show ?thesis using assms by (simp add: normalize_L2_def)
qed

lemma dot_scale_right: "dot q (map (\<lambda>a. a / n) v) = dot q v / n"
proof -
  have "dot q (map (\<lambda>a. a / n) v) = (\<Sum>(a, b)\<leftarrow>zip q v. a * b * (1 / n))"
    by (simp add: dot_def zip_map2 comp_def case_prod_unfold)
  also have "\<dots> = (\<Sum>x\<leftarrow>zip q v. (case x of (a, b) \<Rightarrow> a * b) * (1 / n))"
    by (simp add: case_prod_unfold)
  also have "\<dots> = (\<Sum>x\<leftarrow>zip q v. (case x of (a, b) \<Rightarrow> a * b)) * (1 / n)"
    by (rule sum_list_mult_const)
  finally show ?thesis by (simp add: dot_def)
qed

lemma cosine_similarity_normalize:
  "cosine_similarity q (normalize_L2 v) = cosine_similarity q v"
proof (cases "l2_norm v = 0")
  case True
  then show ?thesis by (simp add: normalize_L2_def)
next
  case False
  have "l2_norm (normalize_L2 v) = 1" using False by (rule l2_norm_normalize)
  moreover have "dot q (normalize_L2 v) = dot q v / l2_norm v"
    using False by (simp add: normalize_L2_def dot_scale_right)
  ultimately show ?thesis using False by (simp add: cosine_similarity_def)
qed





lemma unit_rows_created: "index (create_index b) = Some ix \<Longrightarrow> unit_rows ix"
  by (auto simp add: create_index_fields unit_rows_def)










end
